theory Spec2Isabelle
  imports Main "HOL-Library.Sublist" "HOL-Library.Char_ord" "HOL-Library.List_Lexorder"
    "HOL-Library.AList"
begin

section \<open>Python strings\<close>

text \<open>
  Strings are lists of characters.  The model covers ASCII text: \<open>str.strip\<close>,
  \<open>str.lower\<close> and \<open>str.upper\<close> are given on the ASCII range, where Python's
  whitespace characters are TAB, LF, VT, FF, CR, FS, GS, RS, US and SPACE and only the letters
  \<open>A-Z\<close> / \<open>a-z\<close> change case.
\<close>

definition py_isspace :: "char \<Rightarrow> bool" where
  "py_isspace c = (c \<in> set [CHR 0x09, CHR 0x0A, CHR 0x0B, CHR 0x0C, CHR 0x0D,
                              CHR 0x1C, CHR 0x1D, CHR 0x1E, CHR 0x1F, CHR '' ''])"

definition lstrip :: "string \<Rightarrow> string" where
  "lstrip s = dropWhile py_isspace s"

definition rstrip :: "string \<Rightarrow> string" where
  "rstrip s = rev (dropWhile py_isspace (rev s))"

definition strip :: "string \<Rightarrow> string" where
  "strip s = rstrip (lstrip s)"

definition lstrip_chars :: "string \<Rightarrow> string \<Rightarrow> string" where
  \<comment> \<open>\<open>s.lstrip(cs)\<close>\<close>
  "lstrip_chars cs s = dropWhile (\<lambda>c. c \<in> set cs) s"

definition ascii_lowercase :: string where
  "ascii_lowercase = ''abcdefghijklmnopqrstuvwxyz''"

definition ascii_uppercase :: string where
  "ascii_uppercase = ''ABCDEFGHIJKLMNOPQRSTUVWXYZ''"

definition lower_char :: "char \<Rightarrow> char" where
  "lower_char c =
     (case map_of (zip ascii_uppercase ascii_lowercase) c of Some l \<Rightarrow> l | None \<Rightarrow> c)"

definition upper_char :: "char \<Rightarrow> char" where
  "upper_char c =
     (case map_of (zip ascii_lowercase ascii_uppercase) c of Some u \<Rightarrow> u | None \<Rightarrow> c)"

definition lower :: "string \<Rightarrow> string" where
  "lower s = map lower_char s"

definition upper :: "string \<Rightarrow> string" where
  "upper s = map upper_char s"

definition startswith :: "string \<Rightarrow> string \<Rightarrow> bool" where
  "startswith s p = (take (length p) s = p)"

definition endswith :: "string \<Rightarrow> string \<Rightarrow> bool" where
  "endswith s p = (length p \<le> length s \<and> drop (length s - length p) s = p)"

text \<open>\<open>s.split(c)\<close> for a one-character separator: every separator ends a piece, so the
  result is never empty and may hold empty pieces.\<close>

fun split_on :: "char \<Rightarrow> string \<Rightarrow> string list" where
  "split_on c [] = [[]]"
| "split_on c (x # xs) =
     (if x = c then [] # split_on c xs
      else (case split_on c xs of [] \<Rightarrow> [[x]] | y # ys \<Rightarrow> (x # y) # ys))"

fun join :: "string \<Rightarrow> string list \<Rightarrow> string" where
  "join sep [] = []"
| "join sep [x] = x"
| "join sep (x # y # ys) = x @ sep @ join sep (y # ys)"

lemmas str_defs = strip_def lstrip_def rstrip_def py_isspace_def lower_def upper_def
  lower_char_def upper_char_def ascii_lowercase_def ascii_uppercase_def startswith_def
  endswith_def lstrip_chars_def


section \<open>Kind selection (\<open>downloader.py\<close>)\<close>

definition DEFAULT_ARTIFACT_KINDS :: "string set" where
  "DEFAULT_ARTIFACT_KINDS = {''calibration'', ''scripts'', ''weblog'', ''qa_reports'',
     ''auxiliary'', ''readme'', ''calibration_products''}"

definition ALL_NONIMAGE_KINDS :: "string set" where
  "ALL_NONIMAGE_KINDS = {''calibration'', ''scripts'', ''weblog'', ''qa_reports'',
     ''auxiliary'', ''readme'', ''raw'', ''other''}"

definition normalize_kind :: "string \<Rightarrow> string" where
  "normalize_kind kind = lower (strip kind)"

text \<open>One iteration of the token loop of \<open>resolve_artifact_selection\<close>: the tests are made
  in the source's order, on the stripped token.\<close>

definition select_token :: "string set \<Rightarrow> string \<Rightarrow> string set" where
  "select_token selected token =
     (let token_norm = normalize_kind (lstrip_chars ''+-'' token) in
      if token = ''default'' then selected \<union> DEFAULT_ARTIFACT_KINDS
      else if token = ''all-nonimage'' then selected \<union> ALL_NONIMAGE_KINDS
      else if startswith token ''+'' then insert token_norm selected
      else if startswith token ''-'' then selected - {token_norm}
      else insert token_norm selected)"

definition spec_tokens :: "string \<Rightarrow> string list" where
  \<comment> \<open>\<open>[s.strip() for s in spec.split(",") if s.strip()]\<close>\<close>
  "spec_tokens spec = map strip (filter (\<lambda>s. strip s \<noteq> []) (split_on CHR '','' spec))"

definition resolve_artifact_selection :: "string \<Rightarrow> string set" where
  "resolve_artifact_selection spec0 =
     (let spec1 = strip (if spec0 = [] then ''default'' else spec0);
          spec = (if spec1 = [] then ''default'' else spec1);
          selected = foldl select_token {} (spec_tokens spec)
      in if selected = {} then DEFAULT_ARTIFACT_KINDS else selected)"

definition artifact_selected :: "string \<Rightarrow> string set \<Rightarrow> bool" where
  "artifact_selected kind selected_kinds = (normalize_kind kind \<in> selected_kinds)"


section \<open>Values of manifests and summaries\<close>

text \<open>
  Manifests and summaries are JSON documents read with \<open>json.load\<close>; their values are
  \<open>None\<close>, booleans, integers, strings, lists and dictionaries (floating-point numbers are
  not modelled).  A dictionary is an association list with one entry per key.
\<close>

datatype pyval =
    PyNone
  | PyBool bool
  | PyInt int
  | PyStr string
  | PyList "pyval list"
  | PyDict "(string \<times> pyval) list"

type_synonym pydict = "(string \<times> pyval) list"

fun truthy :: "pyval \<Rightarrow> bool" where
  "truthy PyNone = False"
| "truthy (PyBool b) = b"
| "truthy (PyInt i) = (i \<noteq> 0)"
| "truthy (PyStr s) = (s \<noteq> [])"
| "truthy (PyList xs) = (xs \<noteq> [])"
| "truthy (PyDict kvs) = (kvs \<noteq> [])"

definition py_or :: "pyval \<Rightarrow> pyval \<Rightarrow> pyval" where
  \<comment> \<open>\<open>a or b\<close>\<close>
  "py_or a b = (if truthy a then a else b)"

definition dget :: "pydict \<Rightarrow> string \<Rightarrow> pyval" where
  \<comment> \<open>\<open>d.get(k)\<close>\<close>
  "dget d k = (case map_of d k of None \<Rightarrow> PyNone | Some v \<Rightarrow> v)"

definition digit_char :: "nat \<Rightarrow> char" where
  "digit_char n = ''0123456789'' ! (n mod 10)"

fun show_nat :: "nat \<Rightarrow> string" where
  "show_nat n = (if n < 10 then [digit_char n] else show_nat (n div 10) @ [digit_char n])"

declare show_nat.simps [simp del]

definition show_int :: "int \<Rightarrow> string" where
  "show_int i = (if i < 0 then CHR ''-'' # show_nat (nat (- i)) else show_nat (nat i))"







section \<open>QA status normalisation (\<open>index_db.py\<close>)\<close>





section \<open>Errors\<close>

text \<open>Every exception the modelled code can raise is a value; the string is its message.\<close>

datatype py_error =
    ValueError string
  | TypeError string
  | AttributeError string
  | KeyError string
  | SqliteError string
  | OSError string
  | TarError string

fun sum_bind :: "'e + 'a \<Rightarrow> ('a \<Rightarrow> 'e + 'b) \<Rightarrow> 'e + 'b" where
  "sum_bind (Inl e) f = Inl e"
| "sum_bind (Inr x) f = f x"


section \<open>More Python built-ins\<close>

definition dget_default :: "pydict \<Rightarrow> string \<Rightarrow> pyval \<Rightarrow> pyval" where
  \<comment> \<open>\<open>d.get(k, default)\<close>\<close>
  "dget_default d k dflt = (case map_of d k of None \<Rightarrow> dflt | Some v \<Rightarrow> v)"


fun py_iter :: "pyval \<Rightarrow> py_error + pyval list" where
  \<comment> \<open>the items a \<open>for\<close> loop over the value visits\<close>
  "py_iter (PyList xs) = Inr xs"
| "py_iter (PyDict kvs) = Inr (map (\<lambda>kv. PyStr (fst kv)) kvs)"
| "py_iter (PyStr s) = Inr (map (\<lambda>c. PyStr [c]) s)"
| "py_iter v = Inl (TypeError ''object is not iterable'')"









section \<open>The index store (\<open>index_db.py\<close>)\<close>

text \<open>
  A cell of a table is NULL, an integer or text.  The three JSON columns of \<open>mous\<close> hold
  the text \<open>json.dumps\<close> writes; the model keeps the value that is serialised.
\<close>

datatype sqlval = SqlNull | SqlInt int | SqlText string | SqlJson pyval




text \<open>
  The tables.  \<open>mous\<close> maps the key \<open>mous_uid\<close> to the 25 other columns in the order of
  \<open>CREATE TABLE\<close>; \<open>eb\<close> is the list of its \<open>(mous_uid, eb_uid)\<close> rows; \<open>artifact\<close>
  maps \<open>(mous_uid, filename)\<close> to the 7 other columns.  A \<open>filename\<close> may be NULL, and a NULL
  never conflicts with another key.  \<open>in_txn\<close> tells whether the connection has an open
  transaction: the \<open>sqlite3\<close> module opens one before an INSERT and \<open>commit\<close> closes it.
  Text bound to the INTEGER column \<open>size_bytes\<close> is kept as text (SQLite would convert
  text that reads as a number).
\<close>

record store =
  mous :: "(string \<times> sqlval list) list"
  eb :: "(string \<times> string) list"
  artifact :: "((string \<times> sqlval) \<times> sqlval list) list"
  in_txn :: bool


definition ARTIFACT_COLUMNS :: "string list" where
  "ARTIFACT_COLUMNS = [''kind'', ''status'', ''local_path'', ''source_url'', ''size_bytes'',
     ''checksum'', ''updated_at'']"





definition commit :: "store \<Rightarrow> store" where
  "commit db = db\<lparr>in_txn := False\<rparr>"










subsection \<open>Reading a summary\<close>










subsection \<open>\<open>upsert_mous_from_summary\<close>\<close>



















subsection \<open>\<open>merge_db\<close>\<close>








section \<open>Merging shards (\<open>index_merge.py\<close>)\<close>

text \<open>
  The files \<open>merge_index_from_shards\<close> finds are inputs: the shard stores as pairs of file
  name and content, in the sorted order of their paths, and the loose summary files with
  their manifests, in sorted order too.  The central store is open and initialised.
\<close>

datatype json_file = Absent | Malformed string | Json pyval










subsection \<open>Notions for the statements about merging\<close>

text \<open>What a store holds of one unit: its \<open>mous\<close> row, its execution blocks and its
  artifact rows by file name.\<close>

definition unit_view ::
  "string \<Rightarrow> store \<Rightarrow> sqlval list option \<times> string set \<times> (sqlval \<Rightarrow> sqlval list option)" where
  "unit_view uid db =
     (map_of (mous db) uid, {e. (uid, e) \<in> set (eb db)}, (\<lambda>f. map_of (artifact db) (uid, f)))"










section \<open>The download manager (\<open>downloader.py\<close>)\<close>

subsection \<open>Data\<close>

record artifact_info =
  ai_kind :: string
  ai_url :: string
  ai_filename :: string
  ai_semantics :: "string option"
  ai_content_type :: "string option"
  ai_size_bytes :: "int option"
  ai_checksum :: "string option"
  ai_description :: "string option"

record mous_record =
  rec_project_code :: string
  rec_member_ous_uid :: string
  rec_group_ous_uid :: "string option"
  rec_science_goal_uid :: "string option"
  rec_eb_uids :: "string list"
  rec_band_list :: "string list"
  rec_release_date :: "string option"
  rec_obs_date :: "string option"
  rec_qa2_passed :: "bool option"
  rec_qa0_status :: "string option"
  rec_qa0_reasons :: "string list"
  rec_qa2_reasons :: "string list"

definition opt_str :: "string option \<Rightarrow> pyval" where
  "opt_str s = (case s of None \<Rightarrow> PyNone | Some t \<Rightarrow> PyStr t)"

definition opt_bool :: "bool option \<Rightarrow> pyval" where
  "opt_bool b = (case b of None \<Rightarrow> PyNone | Some t \<Rightarrow> PyBool t)"

definition opt_int :: "int option \<Rightarrow> pyval" where
  "opt_int i = (case i of None \<Rightarrow> PyNone | Some n \<Rightarrow> PyInt n)"

definition str_list :: "string list \<Rightarrow> pyval" where
  "str_list xs = PyList (map PyStr xs)"

definition dict_set :: "string \<Rightarrow> pyval \<Rightarrow> pydict \<Rightarrow> pydict" where
  \<comment> \<open>\<open>d[k] = v\<close>: a key keeps its place, a new key goes last\<close>
  "dict_set k v d = AList.update k v d"

definition dict_update :: "pydict \<Rightarrow> pydict \<Rightarrow> pydict" where
  \<comment> \<open>\<open>d.update(payload)\<close>\<close>
  "dict_update payload d = foldl (\<lambda>acc kv. dict_set (fst kv) (snd kv) acc) d payload"

text \<open>
  The files under the delivered directory, as the download manager sees them: the size of
  the file at a path, if there is one.  The clock is read by \<open>now_utc_iso\<close>; the \<open>n\<close>-th
  reading of a run is \<open>clock n\<close>.
\<close>

type_synonym local_files = "string \<Rightarrow> nat option"

definition path_join :: "string \<Rightarrow> string \<Rightarrow> string" where
  \<comment> \<open>\<open>str(delivered_dir / name)\<close> for a directory path in normal form other than the root\<close>
  "path_join dir name =
     (let comps = filter (\<lambda>c. c \<noteq> [] \<and> c \<noteq> ''.'') (split_on CHR ''/'' name) in
      if startswith name ''//'' \<and> \<not> startswith name ''///'' then ''//'' @ join ''/'' comps
      else if startswith name ''/'' then ''/'' @ join ''/'' comps
      else if comps = [] then dir
      else dir @ ''/'' @ join ''/'' comps)"

definition basename :: "string \<Rightarrow> string" where
  \<comment> \<open>\<open>path.name\<close> of a path in normal form\<close>
  "basename path = last (split_on CHR ''/'' path)"

record download_env =
  env_selected_kinds :: "string set"
  env_delivered_dir :: string
  env_files :: local_files
  env_clock :: "nat \<Rightarrow> string"


subsection \<open>Reading and saving the manifest\<close>

definition new_manifest :: "mous_record \<Rightarrow> string \<Rightarrow> string \<Rightarrow> pydict" where
  "new_manifest record created updated =
     [(''mous_uid'', PyStr (rec_member_ous_uid record)),
      (''project_code'', PyStr (rec_project_code record)),
      (''group_ous_uid'', opt_str (rec_group_ous_uid record)),
      (''science_goal_uid'', opt_str (rec_science_goal_uid record)),
      (''release_date'', opt_str (rec_release_date record)),
      (''obs_date'', opt_str (rec_obs_date record)),
      (''band_list'', str_list (rec_band_list record)),
      (''eb_uids'', str_list (rec_eb_uids record)),
      (''qa2_passed'', opt_bool (rec_qa2_passed record)),
      (''qa0_status'', opt_str (rec_qa0_status record)),
      (''qa0_reasons'', str_list (rec_qa0_reasons record)),
      (''qa2_reasons'', str_list (rec_qa2_reasons record)),
      (''created_at'', PyStr created),
      (''updated_at'', PyStr updated),
      (''artifacts'', PyList []),
      (''history'', PyList [])]"

definition fill :: "string \<Rightarrow> pyval \<Rightarrow> pydict \<Rightarrow> pydict" where
  \<comment> \<open>\<open>payload[k] = payload.get(k) or v\<close>\<close>
  "fill k v payload = dict_set k (py_or (dget payload k) v) payload"

definition fill_from_record :: "mous_record \<Rightarrow> pydict \<Rightarrow> pydict" where
  "fill_from_record record payload =
     (let p1 = fill ''mous_uid'' (PyStr (rec_member_ous_uid record)) payload;
          p2 = fill ''project_code'' (PyStr (rec_project_code record)) p1;
          p3 = fill ''group_ous_uid'' (opt_str (rec_group_ous_uid record)) p2;
          p4 = fill ''science_goal_uid'' (opt_str (rec_science_goal_uid record)) p3;
          p5 = fill ''release_date'' (opt_str (rec_release_date record)) p4;
          p6 = fill ''obs_date'' (opt_str (rec_obs_date record)) p5;
          p7 = fill ''band_list'' (str_list (rec_band_list record)) p6;
          p8 = fill ''eb_uids'' (str_list (rec_eb_uids record)) p7;
          p9 = dict_set ''qa2_passed''
                 (if dget p8 ''qa2_passed'' \<noteq> PyNone then dget p8 ''qa2_passed''
                  else opt_bool (rec_qa2_passed record)) p8;
          p10 = fill ''qa0_status'' (opt_str (rec_qa0_status record)) p9;
          p11 = fill ''qa0_reasons'' (str_list (rec_qa0_reasons record)) p10
      in fill ''qa2_reasons'' (str_list (rec_qa2_reasons record)) p11)"

text \<open>\<open>_read_manifest\<close> returns the manifest and the number of clock readings it made.\<close>

definition read_manifest ::
  "json_file \<Rightarrow> mous_record \<Rightarrow> (nat \<Rightarrow> string) \<Rightarrow> py_error + (pydict \<times> nat)" where
  "read_manifest file record clock =
     (case file of
        Malformed m \<Rightarrow> Inl (ValueError m)
      | Absent \<Rightarrow> Inr (new_manifest record (clock 0) (clock 1), 2)
      | Json v \<Rightarrow>
          if \<not> truthy v then Inr (new_manifest record (clock 0) (clock 1), 2)
          else (case v of
                  PyDict payload \<Rightarrow> Inr (fill_from_record record payload, 0)
                | PyList xs \<Rightarrow> Inl (AttributeError ''list object has no attribute get'')
                | _ \<Rightarrow> Inl (AttributeError ''object has no attribute get'')))"

definition save_manifest :: "pydict \<Rightarrow> string \<Rightarrow> pydict" where
  \<comment> \<open>the document \<open>_save_manifest\<close> writes\<close>
  "save_manifest payload now = dict_set ''updated_at'' (PyStr now) payload"

definition append_history :: "pydict \<Rightarrow> pydict \<Rightarrow> py_error + pydict" where
  \<comment> \<open>\<open>manifest.setdefault("history", []).append(entry)\<close>\<close>
  "append_history entry manifest =
     (case map_of manifest ''history'' of
        None \<Rightarrow> Inr (manifest @ [(''history'', PyList [PyDict entry])])
      | Some (PyList h) \<Rightarrow> Inr (dict_set ''history'' (PyList (h @ [PyDict entry])) manifest)
      | Some _ \<Rightarrow> Inl (AttributeError ''object has no attribute append''))"


subsection \<open>Looking for what is missing\<close>

definition artifact_exists :: "local_files \<Rightarrow> string \<Rightarrow> int option \<Rightarrow> bool" where
  "artifact_exists files loc expected_size =
     (case files loc of
        None \<Rightarrow> False
      | Some sz \<Rightarrow> (case expected_size of None \<Rightarrow> True | Some e \<Rightarrow> int sz = e))"

definition artifact_satisfied_without_archive_file :: "pydict option \<Rightarrow> bool" where
  "artifact_satisfied_without_archive_file entry =
     (case entry of
        None \<Rightarrow> False
      | Some e \<Rightarrow> e \<noteq> [] \<and> truthy (dget e ''archive_removed_after_unpack'')
                  \<and> truthy (dget e ''unpacked_to''))"

fun find_entry :: "pyval list \<Rightarrow> string \<Rightarrow> py_error + (nat \<times> pydict) option" where
  \<comment> \<open>the loop of \<open>_entry_lookup\<close>: the position and the entry of the first match\<close>
  "find_entry [] filename = Inr None"
| "find_entry (item # items) filename =
     (case item of
        PyDict d \<Rightarrow>
          if dget d ''filename'' = PyStr filename then Inr (Some (0, d))
          else (case find_entry items filename of
                  Inl e \<Rightarrow> Inl e
                | Inr None \<Rightarrow> Inr None
                | Inr (Some (i, d')) \<Rightarrow> Inr (Some (Suc i, d')))
      | _ \<Rightarrow> Inl (AttributeError ''object has no attribute get''))"

definition entry_lookup :: "pydict \<Rightarrow> string \<Rightarrow> py_error + (nat \<times> pydict) option" where
  "entry_lookup manifest filename =
     sum_bind (py_iter (dget_default manifest ''artifacts'' (PyList [])))
       (\<lambda>items. find_entry items filename)"

definition set_entry :: "nat \<Rightarrow> pydict \<Rightarrow> pydict \<Rightarrow> pydict" where
  \<comment> \<open>the manifest after the entry at a position of its artifact list was mutated\<close>
  "set_entry i d manifest =
     (case dget manifest ''artifacts'' of
        PyList xs \<Rightarrow> dict_set ''artifacts'' (PyList (xs[i := PyDict d])) manifest
      | _ \<Rightarrow> manifest)"

definition append_artifact :: "pydict \<Rightarrow> pydict \<Rightarrow> py_error + pydict" where
  \<comment> \<open>\<open>manifest["artifacts"].append(entry)\<close>\<close>
  "append_artifact entry manifest =
     (case map_of manifest ''artifacts'' of
        None \<Rightarrow> Inl (KeyError ''artifacts'')
      | Some (PyList xs) \<Rightarrow> Inr (dict_set ''artifacts'' (PyList (xs @ [PyDict entry])) manifest)
      | Some _ \<Rightarrow> Inl (AttributeError ''object has no attribute append''))"

record scan_state =
  sc_manifest :: pydict
  sc_to_fetch :: "artifact_info list"
  sc_tick :: nat

definition file_size_val :: "local_files \<Rightarrow> string \<Rightarrow> pyval" where
  \<comment> \<open>\<open>local_path.stat().st_size if local_path.exists() else None\<close>\<close>
  "file_size_val files loc = (case files loc of None \<Rightarrow> PyNone | Some n \<Rightarrow> PyInt (int n))"

definition mark_present :: "download_env \<Rightarrow> artifact_info \<Rightarrow> string \<Rightarrow> nat \<Rightarrow> pydict \<Rightarrow> pydict" where
  \<comment> \<open>the four assignments to an entry that is already satisfied\<close>
  "mark_present env art local_path tick existing =
     (let e1 = dict_set ''status'' (PyStr ''present'') existing;
          e2 = dict_set ''kind'' (PyStr (normalize_kind (ai_kind art))) e1;
          e3 = (case env_files env local_path of
                  None \<Rightarrow> e2
                | Some n \<Rightarrow> dict_set ''size_bytes'' (PyInt (int n)) e2)
      in dict_set ''updated_at'' (PyStr (env_clock env tick)) e3)"

definition present_entry :: "download_env \<Rightarrow> artifact_info \<Rightarrow> string \<Rightarrow> nat \<Rightarrow> pydict" where
  "present_entry env art local_path tick =
     [(''kind'', PyStr (normalize_kind (ai_kind art))),
      (''filename'', PyStr (ai_filename art)),
      (''url'', PyStr (ai_url art)),
      (''local_path'', PyStr local_path),
      (''size_bytes'', file_size_val (env_files env) local_path),
      (''checksum'', PyNone),
      (''status'', PyStr ''present''),
      (''downloaded_at'', PyStr (env_clock env tick)),
      (''updated_at'', PyStr (env_clock env (Suc tick))),
      (''semantics'', opt_str (ai_semantics art)),
      (''description'', opt_str (ai_description art))]"

text \<open>The body of the loop over the listed artifacts.\<close>

definition scan_artifact :: "download_env \<Rightarrow> scan_state \<Rightarrow> artifact_info \<Rightarrow> py_error + scan_state" where
  "scan_artifact env st art =
     (if \<not> artifact_selected (ai_kind art) (env_selected_kinds env) then Inr st
      else
        let local_path = path_join (env_delivered_dir env) (ai_filename art) in
        case entry_lookup (sc_manifest st) (ai_filename art) of
          Inl e \<Rightarrow> Inl e
        | Inr existing \<Rightarrow>
            if artifact_exists (env_files env) local_path (ai_size_bytes art)
               \<or> artifact_satisfied_without_archive_file (map_option snd existing)
            then (case existing of
                    Some (i, d) \<Rightarrow>
                      Inr (st\<lparr>sc_manifest :=
                                set_entry i (mark_present env art local_path (sc_tick st) d)
                                  (sc_manifest st),
                              sc_tick := Suc (sc_tick st)\<rparr>)
                  | None \<Rightarrow>
                      (case append_artifact (present_entry env art local_path (sc_tick st))
                              (sc_manifest st) of
                         Inl e \<Rightarrow> Inl e
                       | Inr m \<Rightarrow> Inr (st\<lparr>sc_manifest := m, sc_tick := sc_tick st + 2\<rparr>)))
            else Inr (st\<lparr>sc_to_fetch := sc_to_fetch st @ [art]\<rparr>))"

fun scan_artifacts :: "download_env \<Rightarrow> artifact_info list \<Rightarrow> scan_state \<Rightarrow> py_error + scan_state" where
  "scan_artifacts env [] st = Inr st"
| "scan_artifacts env (art # arts) st =
     (case scan_artifact env st art of
        Inl e \<Rightarrow> Inl e
      | Inr st' \<Rightarrow> scan_artifacts env arts st')"


subsection \<open>One transfer\<close>

text \<open>
  What the server does at one attempt: \<open>session.get\<close> raises, or it answers with a status
  code and a body of which so many bytes arrive before the stream ends, normally or with
  an exception.  The size of the \<open>.part\<close> file is \<open>0\<close> when there is none.
\<close>

datatype response =
    ConnectionFails string
  | Response nat nat "string option"

definition size_mismatch_message :: "string \<Rightarrow> int \<Rightarrow> nat \<Rightarrow> string" where
  "size_mismatch_message name expected got =
     ''Size mismatch for '' @ name @ '': expected '' @ show_int expected
       @ '', got '' @ show_nat got"

text \<open>One pass of the \<open>try\<close> block: the size of the \<open>.part\<close> file afterwards, and either the
  message of the exception or the size of the finished file.\<close>

definition attempt_once :: "string \<Rightarrow> int option \<Rightarrow> nat \<Rightarrow> response \<Rightarrow> nat \<times> (string + nat)" where
  "attempt_once name expected downloaded resp =
     (case resp of
        ConnectionFails m \<Rightarrow> (downloaded, Inl m)
      | Response status_code received stream_error \<Rightarrow>
          let append = (downloaded > 0 \<and> status_code \<noteq> 200) in
          if 400 \<le> status_code \<and> status_code < 600
          then (downloaded, Inl (''HTTP error '' @ show_nat status_code))
          else
            let final_size = (if append then downloaded else 0) + received in
            case stream_error of
              Some m \<Rightarrow> (final_size, Inl m)
            | None \<Rightarrow>
                (case expected of
                   Some e \<Rightarrow>
                     if int final_size \<noteq> e
                     then (final_size, Inl (size_mismatch_message name e final_size))
                     else (0, Inr final_size)
                 | None \<Rightarrow> (0, Inr final_size)))"

datatype pause = Backoff nat | RateLimit

record transfer =
  tr_status :: string
  tr_error :: "string option"
  tr_size_bytes :: "nat option"
  tr_attempts :: nat
  tr_pauses :: "pause list"

text \<open>The \<open>for attempt in range(1, retry_count + 1)\<close> loop, from attempt \<open>attempt\<close> with
  \<open>left\<close> iterations to go.\<close>

fun attempts_from ::
  "(nat \<Rightarrow> response) \<Rightarrow> string \<Rightarrow> int option \<Rightarrow> bool \<Rightarrow> nat \<Rightarrow> nat \<Rightarrow> nat \<Rightarrow> nat \<Rightarrow> pause list
     \<Rightarrow> transfer" where
  "attempts_from server name expected limited retry_count 0 attempt downloaded pauses =
     \<lparr>tr_status = ''error'', tr_error = Some ''retry exhausted'', tr_size_bytes = None,
      tr_attempts = attempt - 1, tr_pauses = pauses\<rparr>"
| "attempts_from server name expected limited retry_count (Suc left) attempt downloaded pauses =
     (case attempt_once name expected downloaded (server attempt) of
        (part, Inr final_size) \<Rightarrow>
          \<lparr>tr_status = ''ok'', tr_error = None, tr_size_bytes = Some final_size,
           tr_attempts = attempt,
           tr_pauses = (if limited then pauses @ [RateLimit] else pauses)\<rparr>
      | (part, Inl message) \<Rightarrow>
          if attempt = retry_count
          then \<lparr>tr_status = ''error'', tr_error = Some message, tr_size_bytes = None,
                tr_attempts = attempt, tr_pauses = pauses\<rparr>
          else attempts_from server name expected limited retry_count left (Suc attempt) part
                 (pauses @ [Backoff (min (2 ^ attempt) 10)]))"

definition download_one ::
  "(nat \<Rightarrow> response) \<Rightarrow> local_files \<Rightarrow> artifact_info \<Rightarrow> string \<Rightarrow> int \<Rightarrow> bool \<Rightarrow> transfer" where
  \<comment> \<open>\<open>limited\<close> is \<open>rate_limit_sec > 0\<close>\<close>
  "download_one server files art local_path retry_count limited =
     (let downloaded = (case files (local_path @ ''.part'') of None \<Rightarrow> 0 | Some n \<Rightarrow> n)
      in attempts_from server (basename local_path) (ai_size_bytes art) limited
           (nat retry_count) (nat retry_count) 1 downloaded [])"


subsection \<open>\<open>download_for_record\<close>\<close>

definition result_payload ::
  "download_env \<Rightarrow> artifact_info \<Rightarrow> string \<Rightarrow> transfer \<Rightarrow> string option \<Rightarrow> nat \<Rightarrow> pydict" where
  \<comment> \<open>\<open>digest\<close> is the SHA-256 of the file when it was computed\<close>
  "result_payload env art local_path tr digest tick =
     (let ok = (tr_status tr = ''ok'') in
      [(''kind'', PyStr (normalize_kind (ai_kind art))),
       (''filename'', PyStr (ai_filename art)),
       (''url'', PyStr (ai_url art)),
       (''local_path'', PyStr local_path),
       (''size_bytes'', (case tr_size_bytes tr of None \<Rightarrow> PyNone | Some n \<Rightarrow> PyInt (int n))),
       (''checksum'', py_or (opt_str digest) (opt_str (ai_checksum art))),
       (''status'', PyStr (if ok then ''present'' else ''error'')),
       (''downloaded_at'', (if ok then PyStr (env_clock env tick) else PyNone)),
       (''updated_at'', PyStr (env_clock env (if ok then Suc tick else tick))),
       (''error'', opt_str (tr_error tr)),
       (''semantics'', opt_str (ai_semantics art)),
       (''description'', opt_str (ai_description art)),
       (''archive_removed_after_unpack'', PyBool False)])"

text \<open>The body of the loop over the completed transfers: the manifest and the clock
  readings made so far.\<close>

definition record_result ::
  "download_env \<Rightarrow> bool \<Rightarrow> (artifact_info \<Rightarrow> string) \<Rightarrow> (artifact_info \<Rightarrow> transfer)
     \<Rightarrow> pydict \<times> nat \<Rightarrow> artifact_info \<Rightarrow> py_error + (pydict \<times> nat)" where
  "record_result env compute_sha256 sha256 result st art =
     (let manifest = fst st; tick = snd st;
          local_path = path_join (env_delivered_dir env) (ai_filename art);
          tr = result art;
          ok = (tr_status tr = ''ok'');
          digest = (if ok \<and> compute_sha256 then Some (sha256 art) else None)
      in case entry_lookup manifest (ai_filename art) of
           Inl e \<Rightarrow> Inl e
         | Inr existing \<Rightarrow>
             let payload = result_payload env art local_path tr digest tick;
                 tick' = (if ok then tick + 2 else Suc tick)
             in (case existing of
                   Some (i, d) \<Rightarrow> Inr (set_entry i (dict_update payload d) manifest, tick')
                 | None \<Rightarrow>
                     (case append_artifact payload manifest of
                        Inl e \<Rightarrow> Inl e
                      | Inr m \<Rightarrow> Inr (m, tick'))))"

fun record_results ::
  "download_env \<Rightarrow> bool \<Rightarrow> (artifact_info \<Rightarrow> string) \<Rightarrow> (artifact_info \<Rightarrow> transfer)
     \<Rightarrow> artifact_info list \<Rightarrow> pydict \<times> nat \<Rightarrow> py_error + (pydict \<times> nat)" where
  "record_results env compute_sha256 sha256 result [] st = Inr st"
| "record_results env compute_sha256 sha256 result (art # arts) st =
     (case record_result env compute_sha256 sha256 result st art of
        Inl e \<Rightarrow> Inl e
      | Inr st' \<Rightarrow> record_results env compute_sha256 sha256 result arts st')"

text \<open>
  \<open>download_for_record\<close>.  The listing service's answer \<open>available\<close>, the servers' behaviour
  for each artifact, the digests and the order in which the transfers complete are inputs;
  \<open>completed\<close> lists the artifacts of \<open>to_fetch\<close> in the order \<open>as_completed\<close> yields them.
  The result is the manifest written to disk.
\<close>

definition no_missing_entry :: "string set \<Rightarrow> string \<Rightarrow> pydict" where
  "no_missing_entry selected_kinds now =
     [(''timestamp'', PyStr now), (''event'', PyStr ''download''),
      (''message'', PyStr ''No missing artifacts for selected kinds''),
      (''selected_kinds'', str_list (sorted_list_of_set selected_kinds))]"

definition downloaded_entry :: "string set \<Rightarrow> string \<Rightarrow> nat \<Rightarrow> pydict" where
  "downloaded_entry selected_kinds now n =
     [(''timestamp'', PyStr now), (''event'', PyStr ''download''),
      (''selected_kinds'', str_list (sorted_list_of_set selected_kinds)),
      (''downloaded'', PyInt (int n))]"

definition download_for_record ::
  "mous_record \<Rightarrow> string \<Rightarrow> json_file \<Rightarrow> local_files \<Rightarrow> (nat \<Rightarrow> string) \<Rightarrow> string
     \<Rightarrow> py_error + artifact_info list \<Rightarrow> (artifact_info \<Rightarrow> nat \<Rightarrow> response)
     \<Rightarrow> (artifact_info list \<Rightarrow> artifact_info list) \<Rightarrow> (artifact_info \<Rightarrow> string)
     \<Rightarrow> int \<Rightarrow> bool \<Rightarrow> bool \<Rightarrow> py_error + pydict" where
  "download_for_record record delivered_dir manifest_file files clock artifacts_spec
       available servers completed sha256 retry_count limited compute_sha256 =
     sum_bind (read_manifest manifest_file record clock) (\<lambda>(manifest, tick0).
     let selected_kinds = resolve_artifact_selection artifacts_spec;
         env = \<lparr>env_selected_kinds = selected_kinds, env_delivered_dir = delivered_dir,
                env_files = files, env_clock = clock\<rparr>
     in
     sum_bind available (\<lambda>arts.
     sum_bind (scan_artifacts env arts
                 \<lparr>sc_manifest = manifest, sc_to_fetch = [], sc_tick = tick0\<rparr>) (\<lambda>st.
       if sc_to_fetch st = [] then
         sum_bind (append_history (no_missing_entry selected_kinds (clock (sc_tick st)))
                     (sc_manifest st))
           (\<lambda>m. Inr (save_manifest m (clock (Suc (sc_tick st)))))
       else
         let result = (\<lambda>art. download_one (servers art) files art
                          (path_join delivered_dir (ai_filename art)) retry_count limited)
         in
         sum_bind (record_results env compute_sha256 sha256 result
                     (completed (sc_to_fetch st)) (sc_manifest st, sc_tick st)) (\<lambda>(m, tick).
         sum_bind (append_history
                     (downloaded_entry selected_kinds (clock tick) (length (sc_to_fetch st))) m)
           (\<lambda>m'. Inr (save_manifest m' (clock (Suc tick))))))))"


subsection \<open>Notions for the statements about the download manager\<close>

fun is_dict :: "pyval \<Rightarrow> bool" where
  "is_dict (PyDict d) = True"
| "is_dict v = False"

definition entries_ok :: "pydict \<Rightarrow> bool" where
  \<comment> \<open>the manifest has its list of artifact entries, each a dictionary\<close>
  "entries_ok manifest =
     (case map_of manifest ''artifacts'' of
        Some (PyList xs) \<Rightarrow> list_all is_dict xs
      | _ \<Rightarrow> False)"



definition entry_of :: "pydict \<Rightarrow> string \<Rightarrow> pydict option" where
  \<comment> \<open>the entry \<open>_entry_lookup\<close> returns, when it returns one\<close>
  "entry_of manifest filename =
     (case entry_lookup manifest filename of Inr (Some (i, d)) \<Rightarrow> Some d | _ \<Rightarrow> None)"






text \<open>For the statements about retries: the size of the \<open>.part\<close> file after the first
  \<open>k\<close> attempts, all failed, and the outcome of attempt \<open>k\<close> after \<open>k - 1\<close> failures.\<close>

fun part_after :: "(nat \<Rightarrow> response) \<Rightarrow> string \<Rightarrow> int option \<Rightarrow> nat \<Rightarrow> nat \<Rightarrow> nat" where
  "part_after server name expected downloaded 0 = downloaded"
| "part_after server name expected downloaded (Suc k) =
     fst (attempt_once name expected (part_after server name expected downloaded k)
            (server (Suc k)))"

definition attempt_result ::
  "(nat \<Rightarrow> response) \<Rightarrow> string \<Rightarrow> int option \<Rightarrow> nat \<Rightarrow> nat \<Rightarrow> string + nat" where
  "attempt_result server name expected downloaded k =
     snd (attempt_once name expected (part_after server name expected downloaded (k - 1))
            (server k))"

definition backoffs :: "nat \<Rightarrow> nat \<Rightarrow> pause list" where
  \<comment> \<open>the pauses after the failed attempts \<open>a, ..., b - 1\<close>\<close>
  "backoffs a b = map (\<lambda>attempt. Backoff (min (2 ^ attempt) 10)) [a..<b]"

definition part_size :: "local_files \<Rightarrow> string \<Rightarrow> nat" where
  \<comment> \<open>\<open>temp_path.stat().st_size if temp_path.exists() else 0\<close>\<close>
  "part_size files local_path =
     (case files (local_path @ ''.part'') of None \<Rightarrow> 0 | Some n \<Rightarrow> n)"

definition history_ok :: "pydict \<Rightarrow> bool" where
  \<comment> \<open>the manifest has no history yet, or a list\<close>
  "history_ok manifest =
     (case map_of manifest ''history'' of None \<Rightarrow> True | Some v \<Rightarrow> (case v of PyList h \<Rightarrow> True | _ \<Rightarrow> False))"

definition to_fetch_of ::
  "string \<Rightarrow> local_files \<Rightarrow> (nat \<Rightarrow> string) \<Rightarrow> string \<Rightarrow> artifact_info list \<Rightarrow> pydict \<Rightarrow> nat
     \<Rightarrow> artifact_info list" where
  \<comment> \<open>the artifacts the scan of \<open>download_for_record\<close> queues for transfer\<close>
  "to_fetch_of delivered_dir files clock artifacts_spec arts manifest tick0 =
     (case scan_artifacts
             \<lparr>env_selected_kinds = resolve_artifact_selection artifacts_spec,
              env_delivered_dir = delivered_dir, env_files = files, env_clock = clock\<rparr>
             arts \<lparr>sc_manifest = manifest, sc_to_fetch = [], sc_tick = tick0\<rparr> of
        Inl e \<Rightarrow> []
      | Inr st \<Rightarrow> sc_to_fetch st)"


section \<open>Example inputs for the index store\<close>

















section \<open>Example inputs for the download manager\<close>

definition ex_record :: mous_record where
  "ex_record = \<lparr>rec_project_code = ''2022.1.00055.S'', rec_member_ous_uid = ''uid://A001/X1/X2'',
                 rec_group_ous_uid = None, rec_science_goal_uid = None, rec_eb_uids = [],
                 rec_band_list = [], rec_release_date = None, rec_obs_date = None,
                 rec_qa2_passed = None, rec_qa0_status = None, rec_qa0_reasons = [],
                 rec_qa2_reasons = []\<rparr>"

definition ex_aux :: artifact_info where
  "ex_aux = \<lparr>ai_kind = ''auxiliary'', ai_url = ''https://archive/aux.tgz'',
             ai_filename = ''aux.tgz'', ai_semantics = None, ai_content_type = None,
             ai_size_bytes = Some 10, ai_checksum = None, ai_description = None\<rparr>"

definition ex_aux_entry :: pydict where
  \<comment> \<open>the entry an earlier run left for \<open>aux.tgz\<close>\<close>
  "ex_aux_entry = [(''kind'', PyStr ''auxiliary''), (''filename'', PyStr ''aux.tgz''),
                   (''url'', PyStr ''https://archive/aux.tgz''),
                   (''local_path'', PyStr ''/data/u/delivered/aux.tgz''),
                   (''size_bytes'', PyInt 10), (''checksum'', PyNone),
                   (''status'', PyStr ''present''),
                   (''downloaded_at'', PyStr ''2024-01-01T00:00:00Z''),
                   (''updated_at'', PyStr ''2024-01-01T00:00:00Z''),
                   (''semantics'', PyNone), (''description'', PyNone)]"

definition ex_manifest :: pydict where
  "ex_manifest = [(''mous_uid'', PyStr ''uid://A001/X1/X2''),
                  (''project_code'', PyStr ''2022.1.00055.S''),
                  (''updated_at'', PyStr ''2024-01-01T00:00:00Z''),
                  (''artifacts'', PyList [PyDict ex_aux_entry]),
                  (''history'', PyList [])]"

definition ex_files :: local_files where
  "ex_files = (\<lambda>p. if p = ''/data/u/delivered/aux.tgz'' then Some 10 else None)"

definition ex_clock :: "nat \<Rightarrow> string" where
  \<comment> \<open>a later day, every reading the same second\<close>
  "ex_clock n = ''2024-02-02T00:00:00Z''"


definition ex_readme :: artifact_info where
  \<comment> \<open>a listed artifact without a size\<close>
  "ex_readme = \<lparr>ai_kind = ''readme'', ai_url = ''https://archive/README.txt'',
                ai_filename = ''README.txt'', ai_semantics = None, ai_content_type = None,
                ai_size_bytes = None, ai_checksum = None, ai_description = None\<rparr>"

definition ex_env :: download_env where
  \<comment> \<open>a truncated \<open>README.txt\<close> of three bytes lies in the delivered directory\<close>
  "ex_env = \<lparr>env_selected_kinds = DEFAULT_ARTIFACT_KINDS,
             env_delivered_dir = ''/data/u/delivered'',
             env_files = (\<lambda>p. if p = ''/data/u/delivered/README.txt'' then Some 3 else None),
             env_clock = ex_clock\<rparr>"

definition ex_scan_state :: scan_state where
  "ex_scan_state = \<lparr>sc_manifest = ex_manifest, sc_to_fetch = [], sc_tick = 0\<rparr>"



definition ex_weblog :: artifact_info where
  "ex_weblog = \<lparr>ai_kind = ''weblog'', ai_url = ''https://archive/weblog.tgz'',
                ai_filename = ''weblog.tgz'', ai_semantics = None, ai_content_type = None,
                ai_size_bytes = Some 20, ai_checksum = None, ai_description = None\<rparr>"

definition ex_scripts :: artifact_info where
  "ex_scripts = \<lparr>ai_kind = ''scripts'', ai_url = ''https://archive/scripts.tgz'',
                 ai_filename = ''scripts.tgz'', ai_semantics = None, ai_content_type = None,
                 ai_size_bytes = Some 5, ai_checksum = None, ai_description = None\<rparr>"

definition ex_servers :: "artifact_info \<Rightarrow> nat \<Rightarrow> response" where
  \<comment> \<open>the server of \<open>weblog.tgz\<close> is down; the one of \<open>scripts.tgz\<close> answers at the
      second attempt\<close>
  "ex_servers art attempt =
     (if ai_filename art = ''weblog.tgz'' then Response 503 0 None
      else if attempt < 2 then ConnectionFails ''connection reset''
      else Response 200 5 None)"

definition ex_download :: "py_error + pydict" where
  "ex_download = download_for_record ex_record ''/data/u/delivered'' (Json (PyDict ex_manifest))
                   ex_files ex_clock ''default'' (Inr [ex_aux, ex_weblog, ex_scripts])
                   ex_servers rev (\<lambda>a. []) 3 False False"

chapter \<open>Properties\<close>

section \<open>Facts about strings and tokens\<close>














lemma strip_Nil [simp]: "strip [] = []"
  by (simp add: str_defs)









subsection \<open>Kind selection\<close>



subsection \<open>QA status normalisation\<close>




section \<open>The index store\<close>

















lemma upper_eq_Nil: "upper s = [] \<longleftrightarrow> s = []"
  by (simp add: upper_def)



subsection \<open>QA status of an upserted unit\<close>









section \<open>Merging shard stores\<close>



lemma view_commit [simp]: "unit_view uid (commit db) = unit_view uid db"
  by (simp add: unit_view_def commit_def)































subsection \<open>Last write wins\<close>




section \<open>The download manager\<close>

lemma find_entry_Some:
  "find_entry xs f = Inr (Some (i, d)) \<Longrightarrow>
     i < length xs \<and> xs ! i = PyDict d \<and> dget d ''filename'' = PyStr f
     \<and> (\<forall>j<i. \<exists>dj. xs ! j = PyDict dj \<and> dget dj ''filename'' \<noteq> PyStr f)"
proof (induction xs arbitrary: i)
  case Nil
  then show ?case by simp
next
  case (Cons item xs)
  then obtain d0 where item: "item = PyDict d0"
    by (cases item) auto
  show ?case
  proof (cases "dget d0 ''filename'' = PyStr f")
    case True
    then show ?thesis using Cons.prems item by auto
  next
    case False
    then obtain i' where i': "find_entry xs f = Inr (Some (i', d))" "i = Suc i'"
      using Cons.prems item by (auto split: sum.splits option.splits)
    from Cons.IH [OF i'(1)] have ih: "i' < length xs" "xs ! i' = PyDict d"
      "dget d ''filename'' = PyStr f"
      "\<forall>j<i'. \<exists>dj. xs ! j = PyDict dj \<and> dget dj ''filename'' \<noteq> PyStr f"
      by auto
    have "\<forall>j<i. \<exists>dj. (item # xs) ! j = PyDict dj \<and> dget dj ''filename'' \<noteq> PyStr f"
    proof (intro allI impI)
      fix j assume "j < i"
      then show "\<exists>dj. (item # xs) ! j = PyDict dj \<and> dget dj ''filename'' \<noteq> PyStr f"
        using ih(4) i'(2) item False by (cases j) auto
    qed
    then show ?thesis using ih i'(2) by simp
  qed
qed

lemma find_entry_SomeI:
  "i < length xs \<Longrightarrow> xs ! i = PyDict d \<Longrightarrow> dget d ''filename'' = PyStr f \<Longrightarrow>
   (\<forall>j<i. \<exists>dj. xs ! j = PyDict dj \<and> dget dj ''filename'' \<noteq> PyStr f) \<Longrightarrow>
   find_entry xs f = Inr (Some (i, d))"
proof (induction xs arbitrary: i)
  case Nil
  then show ?case by simp
next
  case (Cons item xs)
  show ?case
  proof (cases i)
    case 0
    then show ?thesis using Cons.prems by simp
  next
    case (Suc i')
    have "\<exists>dj. (item # xs) ! 0 = PyDict dj \<and> dget dj ''filename'' \<noteq> PyStr f"
      using Cons.prems(4) Suc by blast
    then obtain d0 where d0: "item = PyDict d0" "dget d0 ''filename'' \<noteq> PyStr f" by auto
    have "\<forall>j<i'. \<exists>dj. xs ! j = PyDict dj \<and> dget dj ''filename'' \<noteq> PyStr f"
      using Cons.prems(4) Suc by (metis Suc_less_eq nth_Cons_Suc)
    then have "find_entry xs f = Inr (Some (i', d))"
      using Cons.IH [of i'] Cons.prems Suc by simp
    then show ?thesis using d0 Suc by simp
  qed
qed

lemma find_entry_None:
  "find_entry xs f = Inr None \<longleftrightarrow>
     (\<forall>item\<in>set xs. \<exists>d. item = PyDict d \<and> dget d ''filename'' \<noteq> PyStr f)"
proof (induction xs)
  case Nil
  then show ?case by simp
next
  case (Cons item xs)
  show ?case
  proof (cases item)
    case (PyDict d0)
    then show ?thesis using Cons.IH
      by (auto split: sum.splits option.splits)
  qed (auto)
qed

lemma find_entry_dicts:
  "list_all is_dict xs \<Longrightarrow> \<exists>r. find_entry xs f = Inr r"
proof (induction xs)
  case Nil
  then show ?case by simp
next
  case (Cons item xs)
  then obtain d0 where "item = PyDict d0" by (cases item) auto
  then show ?case using Cons by (auto split: sum.splits option.splits)
qed


lemma find_entry_append:
  "find_entry (xs @ ys) f =
     (case find_entry xs f of
        Inl e \<Rightarrow> Inl e
      | Inr (Some r) \<Rightarrow> Inr (Some r)
      | Inr None \<Rightarrow>
          (case find_entry ys f of
             Inl e \<Rightarrow> Inl e
           | Inr None \<Rightarrow> Inr None
           | Inr (Some (i, d)) \<Rightarrow> Inr (Some (length xs + i, d))))"
proof (induction xs)
  case Nil
  then show ?case by (auto split: sum.splits option.splits)
next
  case (Cons item xs)
  then show ?case by (cases item) (auto split: sum.splits option.splits)
qed

lemma find_entry_update_same:
  assumes "find_entry xs f = Inr (Some (i, d))" and "dget d' ''filename'' = PyStr f"
  shows "find_entry (xs[i := PyDict d']) f = Inr (Some (i, d'))"
proof -
  note c = find_entry_Some [OF assms(1)]
  show ?thesis
  proof (rule find_entry_SomeI)
    show "i < length (xs[i := PyDict d'])" using c by simp
    show "xs[i := PyDict d'] ! i = PyDict d'" using c by simp
    show "dget d' ''filename'' = PyStr f" by (rule assms(2))
    show "\<forall>j<i. \<exists>dj. xs[i := PyDict d'] ! j = PyDict dj \<and> dget dj ''filename'' \<noteq> PyStr f"
      using c by simp
  qed
qed

lemma find_entry_update_other:
  assumes "list_all is_dict xs" and "find_entry xs f = Inr (Some (i, d))"
    and "dget d' ''filename'' = PyStr f" and "g \<noteq> f"
  shows "find_entry (xs[i := PyDict d']) g = find_entry xs g"
proof -
  note c = find_entry_Some [OF assms(2)]
  obtain r where r: "find_entry xs g = Inr r" using find_entry_dicts [OF assms(1)] by blast
  show ?thesis
  proof (cases r)
    case None
    then have all: "\<forall>item\<in>set xs. \<exists>d. item = PyDict d \<and> dget d ''filename'' \<noteq> PyStr g"
      using r find_entry_None by simp
    have "\<forall>item\<in>set (xs[i := PyDict d']). \<exists>d. item = PyDict d \<and> dget d ''filename'' \<noteq> PyStr g"
    proof
      fix item assume "item \<in> set (xs[i := PyDict d'])"
      then have "item = PyDict d' \<or> item \<in> set xs"
        using set_update_subset_insert [of xs i "PyDict d'"] by auto
      then show "\<exists>d. item = PyDict d \<and> dget d ''filename'' \<noteq> PyStr g"
        using all assms(3,4) by auto
    qed
    then have "find_entry (xs[i := PyDict d']) g = Inr None"
      by (rule find_entry_None [THEN iffD2])
    then show ?thesis using r None by simp
  next
    case (Some p)
    obtain j dj where p: "p = (j, dj)" by (cases p)
    note cj = find_entry_Some [OF r [unfolded Some p]]
    have ji: "j \<noteq> i" using c cj assms(4) by auto
    have "find_entry (xs[i := PyDict d']) g = Inr (Some (j, dj))"
    proof (rule find_entry_SomeI)
      show "j < length (xs[i := PyDict d'])" using cj by simp
      show "xs[i := PyDict d'] ! j = PyDict dj" using cj ji by simp
      show "dget dj ''filename'' = PyStr g" using cj by simp
      show "\<forall>k<j. \<exists>dk. xs[i := PyDict d'] ! k = PyDict dk \<and> dget dk ''filename'' \<noteq> PyStr g"
      proof (intro allI impI)
        fix k assume k: "k < j"
        show "\<exists>dk. xs[i := PyDict d'] ! k = PyDict dk \<and> dget dk ''filename'' \<noteq> PyStr g"
        proof (cases "k = i")
          case True
          then show ?thesis using c assms(3,4) by simp
        next
          case False
          then show ?thesis using cj k by simp
        qed
      qed
    qed
    then show ?thesis using r Some p by simp
  qed
qed

lemma dict_set_lookup: "map_of (dict_set k v d) k' = (if k' = k then Some v else map_of d k')"
  by (simp add: dict_set_def update_conv')

lemma dget_dict_set: "dget (dict_set k v d) k' = (if k' = k then v else dget d k')"
  by (simp add: dget_def dict_set_lookup)

lemma entries_ok_lookup:
  assumes "entries_ok m"
  shows "\<exists>xs. map_of m ''artifacts'' = Some (PyList xs) \<and> list_all is_dict xs
           \<and> (\<forall>f. entry_lookup m f = find_entry xs f)"
proof -
  from assms obtain xs where xs: "map_of m ''artifacts'' = Some (PyList xs)" "list_all is_dict xs"
    by (auto simp: entries_ok_def split: option.splits pyval.splits)
  have "\<forall>f. entry_lookup m f = find_entry xs f"
    using xs(1) by (simp add: entry_lookup_def dget_default_def)
  then show ?thesis using xs by blast
qed

lemma list_all_update: "list_all P xs \<Longrightarrow> P v \<Longrightarrow> list_all P (xs[i := v])"
  using set_update_subset_insert [of xs i v] by (auto simp: list_all_iff)

lemma set_entry_artifacts:
  assumes "map_of m ''artifacts'' = Some (PyList xs)"
  shows "map_of (set_entry i d m) ''artifacts'' = Some (PyList (xs[i := PyDict d]))"
    and "\<And>k. k \<noteq> ''artifacts'' \<Longrightarrow> map_of (set_entry i d m) k = map_of m k"
  using assms by (simp_all add: set_entry_def dget_def dict_set_lookup)

lemma append_artifact_ok:
  assumes "map_of m ''artifacts'' = Some (PyList xs)"
  shows "append_artifact e m = Inr (dict_set ''artifacts'' (PyList (xs @ [PyDict e])) m)"
  using assms by (simp add: append_artifact_def)

text \<open>Marking an entry present keeps its file name and sets its status.\<close>

lemma mark_present_fields:
  "dget (mark_present env art lp t d) ''filename'' = dget d ''filename''"
  "dget (mark_present env art lp t d) ''status'' = PyStr ''present''"
  by (auto simp: mark_present_def Let_def dget_dict_set split: option.splits)

lemma mark_present_size:
  "env_files env lp = Some n \<Longrightarrow>
     dget (mark_present env art lp t d) ''size_bytes'' = PyInt (int n)"
  by (simp add: mark_present_def Let_def dget_dict_set)


lemma present_entry_fields:
  "dget (present_entry env art lp t) ''filename'' = PyStr (ai_filename art)"
  "dget (present_entry env art lp t) ''status'' = PyStr ''present''"
  "dget (present_entry env art lp t) ''size_bytes'' = file_size_val (env_files env) lp"
  by (simp_all add: present_entry_def dget_def)


lemma entry_of_find:
  assumes "map_of m ''artifacts'' = Some (PyList xs)"
  shows "entry_of m f = (case find_entry xs f of Inr (Some (i, d)) \<Rightarrow> Some d | _ \<Rightarrow> None)"
  using assms by (simp add: entry_of_def entry_lookup_def dget_default_def)

lemma entries_ok_set_entry:
  assumes "entries_ok m"
  shows "entries_ok (set_entry i d m)"
proof -
  from entries_ok_lookup [OF assms] obtain xs where
    xs: "map_of m ''artifacts'' = Some (PyList xs)" "list_all is_dict xs"
    by blast
  have "list_all is_dict (xs[i := PyDict d])" using xs(2) by (simp add: list_all_update)
  then show ?thesis using set_entry_artifacts(1) [OF xs(1), of i d] by (simp add: entries_ok_def)
qed

lemma entries_ok_append:
  assumes "entries_ok m"
  shows "\<exists>m'. append_artifact e m = Inr m' \<and> entries_ok m'
           \<and> (\<forall>xs. map_of m ''artifacts'' = Some (PyList xs) \<longrightarrow>
                  map_of m' ''artifacts'' = Some (PyList (xs @ [PyDict e])))
           \<and> (\<forall>k. k \<noteq> ''artifacts'' \<longrightarrow> map_of m' k = map_of m k)"
proof -
  from entries_ok_lookup [OF assms] obtain xs where
    xs: "map_of m ''artifacts'' = Some (PyList xs)" "list_all is_dict xs"
    by blast
  show ?thesis
    using xs by (simp add: append_artifact_ok [OF xs(1)] entries_ok_def dict_set_lookup)
qed

text \<open>The effect of one step of the scan on the entry of any file name.\<close>

lemma scan_artifact_cases:
  assumes ok: "entries_ok (sc_manifest st)"
  shows "\<exists>st'. scan_artifact env st art = Inr st' \<and> entries_ok (sc_manifest st')
     \<and> (sc_to_fetch st' = sc_to_fetch st
          \<or> sc_to_fetch st' = sc_to_fetch st @ [art]
             \<and> \<not> artifact_exists (env_files env)
                   (path_join (env_delivered_dir env) (ai_filename art)) (ai_size_bytes art)
             \<and> sc_manifest st' = sc_manifest st)
     \<and> (\<forall>f e. entry_of (sc_manifest st) f = Some e \<and> dget e ''status'' = PyStr ''present'' \<longrightarrow>
            (\<exists>e'. entry_of (sc_manifest st') f = Some e' \<and> dget e' ''status'' = PyStr ''present''))
     \<and> (artifact_selected (ai_kind art) (env_selected_kinds env)
          \<and> artifact_exists (env_files env)
               (path_join (env_delivered_dir env) (ai_filename art)) (ai_size_bytes art) \<longrightarrow>
          sc_to_fetch st' = sc_to_fetch st
          \<and> (\<exists>e. entry_of (sc_manifest st') (ai_filename art) = Some e
                 \<and> dget e ''status'' = PyStr ''present''
                 \<and> dget e ''size_bytes''
                      = file_size_val (env_files env)
                          (path_join (env_delivered_dir env) (ai_filename art))))"
proof -
  let ?m = "sc_manifest st" and ?g = "ai_filename art"
  let ?lp = "path_join (env_delivered_dir env) (ai_filename art)"
  from entries_ok_lookup [OF ok] obtain xs where
    xs: "map_of ?m ''artifacts'' = Some (PyList xs)" "list_all is_dict xs"
    "\<forall>f. entry_lookup ?m f = find_entry xs f"
    by blast
  obtain r where r: "find_entry xs ?g = Inr r" using find_entry_dicts [OF xs(2)] by blast
  show ?thesis
  proof (cases "artifact_selected (ai_kind art) (env_selected_kinds env)")
    case False
    then show ?thesis using ok by (auto simp: scan_artifact_def)
  next
    case sel: True
    show ?thesis
    proof (cases "artifact_exists (env_files env) ?lp (ai_size_bytes art)
                  \<or> artifact_satisfied_without_archive_file (map_option snd r)")
      case False
      then show ?thesis using ok sel xs(3) r by (auto simp: scan_artifact_def Let_def)
    next
      case sat: True
      show ?thesis
      proof (cases r)
        case None
        let ?e = "present_entry env art ?lp (sc_tick st)"
        obtain m' where m': "append_artifact ?e ?m = Inr m'" "entries_ok m'"
          "map_of m' ''artifacts'' = Some (PyList (xs @ [PyDict ?e]))"
          using entries_ok_append [OF ok, of ?e] xs(1) by blast
        let ?st' = "st\<lparr>sc_manifest := m', sc_tick := sc_tick st + 2\<rparr>"
        have step: "scan_artifact env st art = Inr ?st'"
          using sel sat xs(3) r None m'(1) by (simp add: scan_artifact_def Let_def)
        have new: "find_entry (xs @ [PyDict ?e]) ?g = Inr (Some (length xs, ?e))"
          using r None by (simp add: find_entry_append present_entry_fields)
        have keep: "\<forall>f e. entry_of ?m f = Some e \<and> dget e ''status'' = PyStr ''present'' \<longrightarrow>
            (\<exists>e'. entry_of m' f = Some e' \<and> dget e' ''status'' = PyStr ''present'')"
          by (auto simp: entry_of_find [OF xs(1)] entry_of_find [OF m'(3)] find_entry_append
                   split: sum.splits option.splits)
        have here: "\<exists>e. entry_of m' ?g = Some e \<and> dget e ''status'' = PyStr ''present''
                 \<and> dget e ''size_bytes'' = file_size_val (env_files env) ?lp"
          using new by (simp add: entry_of_find [OF m'(3)] present_entry_fields)
        show ?thesis using step m'(2) keep here by auto
      next
        case (Some p)
        obtain i d where p: "p = (i, d)" by (cases p)
        note fe = r [unfolded Some p]
        note c = find_entry_Some [OF fe]
        let ?d' = "mark_present env art ?lp (sc_tick st) d"
        let ?m' = "set_entry i ?d' ?m"
        let ?st' = "st\<lparr>sc_manifest := ?m', sc_tick := Suc (sc_tick st)\<rparr>"
        have step: "scan_artifact env st art = Inr ?st'"
          using sel sat xs(3) r Some p by (simp add: scan_artifact_def Let_def)
        have fn: "dget ?d' ''filename'' = PyStr ?g" using c by (simp add: mark_present_fields)
        have arts': "map_of ?m' ''artifacts'' = Some (PyList (xs[i := PyDict ?d']))"
          by (rule set_entry_artifacts(1) [OF xs(1)])
        have same: "find_entry (xs[i := PyDict ?d']) ?g = Inr (Some (i, ?d'))"
          by (rule find_entry_update_same [OF fe fn])
        have keep: "\<forall>f e. entry_of ?m f = Some e \<and> dget e ''status'' = PyStr ''present'' \<longrightarrow>
            (\<exists>e'. entry_of ?m' f = Some e' \<and> dget e' ''status'' = PyStr ''present'')"
        proof (intro allI impI)
          fix f e assume a: "entry_of ?m f = Some e \<and> dget e ''status'' = PyStr ''present''"
          show "\<exists>e'. entry_of ?m' f = Some e' \<and> dget e' ''status'' = PyStr ''present''"
          proof (cases "f = ?g")
            case True
            then show ?thesis using same
              by (simp add: entry_of_find [OF arts'] mark_present_fields)
          next
            case False
            have "find_entry (xs[i := PyDict ?d']) f = find_entry xs f"
              by (rule find_entry_update_other [OF xs(2) fe fn False])
            then show ?thesis using a
              by (simp add: entry_of_find [OF arts'] entry_of_find [OF xs(1)])
          qed
        qed
        have here: "artifact_exists (env_files env) ?lp (ai_size_bytes art) \<longrightarrow>
                (\<exists>e. entry_of ?m' ?g = Some e \<and> dget e ''status'' = PyStr ''present''
                 \<and> dget e ''size_bytes'' = file_size_val (env_files env) ?lp)"
          using same
          by (auto simp: entry_of_find [OF arts'] mark_present_fields artifact_exists_def
                 file_size_val_def mark_present_size split: option.splits)
        show ?thesis using step entries_ok_set_entry [OF ok] keep here by auto
      qed
    qed
  qed
qed


lemma scan_artifacts_inv:
  assumes "entries_ok (sc_manifest st)"
  shows "\<exists>st'. scan_artifacts env arts st = Inr st' \<and> entries_ok (sc_manifest st')
     \<and> (\<forall>x\<in>set (sc_to_fetch st'). x \<in> set (sc_to_fetch st)
            \<or> x \<in> set arts \<and> \<not> artifact_exists (env_files env)
                   (path_join (env_delivered_dir env) (ai_filename x)) (ai_size_bytes x))
     \<and> (\<forall>f e. entry_of (sc_manifest st) f = Some e \<and> dget e ''status'' = PyStr ''present'' \<longrightarrow>
            (\<exists>e'. entry_of (sc_manifest st') f = Some e' \<and> dget e' ''status'' = PyStr ''present''))
     \<and> (\<forall>a\<in>set arts. artifact_selected (ai_kind a) (env_selected_kinds env)
            \<and> artifact_exists (env_files env)
                 (path_join (env_delivered_dir env) (ai_filename a)) (ai_size_bytes a) \<longrightarrow>
            (\<exists>e. entry_of (sc_manifest st') (ai_filename a) = Some e
                 \<and> dget e ''status'' = PyStr ''present''))"
  using assms
proof (induction arts arbitrary: st)
  case Nil
  then show ?case by simp
next
  case (Cons art arts)
  from scan_artifact_cases [OF Cons.prems, of env art] obtain st1 where
    s1: "scan_artifact env st art = Inr st1" "entries_ok (sc_manifest st1)"
      "sc_to_fetch st1 = sc_to_fetch st
          \<or> sc_to_fetch st1 = sc_to_fetch st @ [art]
             \<and> \<not> artifact_exists (env_files env)
                   (path_join (env_delivered_dir env) (ai_filename art)) (ai_size_bytes art)
             \<and> sc_manifest st1 = sc_manifest st"
      "\<forall>f e. entry_of (sc_manifest st) f = Some e \<and> dget e ''status'' = PyStr ''present'' \<longrightarrow>
            (\<exists>e'. entry_of (sc_manifest st1) f = Some e' \<and> dget e' ''status'' = PyStr ''present'')"
      "artifact_selected (ai_kind art) (env_selected_kinds env)
          \<and> artifact_exists (env_files env)
               (path_join (env_delivered_dir env) (ai_filename art)) (ai_size_bytes art) \<longrightarrow>
          sc_to_fetch st1 = sc_to_fetch st
          \<and> (\<exists>e. entry_of (sc_manifest st1) (ai_filename art) = Some e
                 \<and> dget e ''status'' = PyStr ''present''
                 \<and> dget e ''size_bytes''
                      = file_size_val (env_files env)
                          (path_join (env_delivered_dir env) (ai_filename art)))"
    by blast
  from Cons.IH [OF s1(2)] obtain st' where
    s2: "scan_artifacts env arts st1 = Inr st'" "entries_ok (sc_manifest st')"
      "\<forall>x\<in>set (sc_to_fetch st'). x \<in> set (sc_to_fetch st1)
            \<or> x \<in> set arts \<and> \<not> artifact_exists (env_files env)
                   (path_join (env_delivered_dir env) (ai_filename x)) (ai_size_bytes x)"
      "\<forall>f e. entry_of (sc_manifest st1) f = Some e \<and> dget e ''status'' = PyStr ''present'' \<longrightarrow>
            (\<exists>e'. entry_of (sc_manifest st') f = Some e' \<and> dget e' ''status'' = PyStr ''present'')"
      "\<forall>a\<in>set arts. artifact_selected (ai_kind a) (env_selected_kinds env)
            \<and> artifact_exists (env_files env)
                 (path_join (env_delivered_dir env) (ai_filename a)) (ai_size_bytes a) \<longrightarrow>
            (\<exists>e. entry_of (sc_manifest st') (ai_filename a) = Some e
                 \<and> dget e ''status'' = PyStr ''present'')"
    by blast
  have run: "scan_artifacts env (art # arts) st = Inr st'" using s1(1) s2(1) by simp
  have tf: "\<forall>x\<in>set (sc_to_fetch st'). x \<in> set (sc_to_fetch st)
            \<or> x \<in> set (art # arts) \<and> \<not> artifact_exists (env_files env)
                   (path_join (env_delivered_dir env) (ai_filename x)) (ai_size_bytes x)"
    using s1(3) s2(3) by auto
  have keep: "\<forall>f e. entry_of (sc_manifest st) f = Some e \<and> dget e ''status'' = PyStr ''present'' \<longrightarrow>
            (\<exists>e'. entry_of (sc_manifest st') f = Some e' \<and> dget e' ''status'' = PyStr ''present'')"
    using s1(4) s2(4) by blast
  have marked: "\<forall>a\<in>set (art # arts). artifact_selected (ai_kind a) (env_selected_kinds env)
            \<and> artifact_exists (env_files env)
                 (path_join (env_delivered_dir env) (ai_filename a)) (ai_size_bytes a) \<longrightarrow>
            (\<exists>e. entry_of (sc_manifest st') (ai_filename a) = Some e
                 \<and> dget e ''status'' = PyStr ''present'')"
    using s1(5) s2(4) s2(5) by (metis set_ConsD)
  show ?case using run s2(2) tf keep marked by blast
qed

lemma exists_without_size:
  "ai_size_bytes art = None \<Longrightarrow> files lp = Some sz \<Longrightarrow> artifact_exists files lp (ai_size_bytes art)"
  by (simp add: artifact_exists_def)


subsection \<open>Artifacts without an expected size\<close>

text \<open>
  Claim C9.  When a listed artifact of a selected kind carries no expected size and a file
  of its name exists in the delivered directory, whatever the file's size, the scan marks
  the artifact \<open>present\<close> and does not queue it for transfer: its entry records the size
  found, and no check of size or content is made.
\<close>

theorem sizeless_artifact_present:
  assumes "entries_ok (sc_manifest st)"
    and "art \<in> set arts"
    and "artifact_selected (ai_kind art) (env_selected_kinds env)"
    and "ai_size_bytes art = None"
    and "env_files env (path_join (env_delivered_dir env) (ai_filename art)) = Some sz"
    and "art \<notin> set (sc_to_fetch st)"
  shows "(\<exists>st1. scan_artifact env st art = Inr st1 \<and> sc_to_fetch st1 = sc_to_fetch st
            \<and> (\<exists>e. entry_of (sc_manifest st1) (ai_filename art) = Some e
                   \<and> dget e ''status'' = PyStr ''present''
                   \<and> dget e ''size_bytes'' = PyInt (int sz)))
       \<and> (\<exists>st'. scan_artifacts env arts st = Inr st' \<and> art \<notin> set (sc_to_fetch st')
            \<and> (\<exists>e. entry_of (sc_manifest st') (ai_filename art) = Some e
                   \<and> dget e ''status'' = PyStr ''present''))"
proof -
  have ex: "artifact_exists (env_files env)
              (path_join (env_delivered_dir env) (ai_filename art)) (ai_size_bytes art)"
    using assms(4,5) by (simp add: artifact_exists_def)
  have one: "\<exists>st1. scan_artifact env st art = Inr st1 \<and> sc_to_fetch st1 = sc_to_fetch st
            \<and> (\<exists>e. entry_of (sc_manifest st1) (ai_filename art) = Some e
                   \<and> dget e ''status'' = PyStr ''present''
                   \<and> dget e ''size_bytes'' = PyInt (int sz))"
    using scan_artifact_cases [OF assms(1), of env art] assms(3) ex assms(5)
    by (auto simp: file_size_val_def)
  from scan_artifacts_inv [OF assms(1), of env arts] obtain st' where
    s: "scan_artifacts env arts st = Inr st'"
      "\<forall>x\<in>set (sc_to_fetch st'). x \<in> set (sc_to_fetch st)
            \<or> x \<in> set arts \<and> \<not> artifact_exists (env_files env)
                   (path_join (env_delivered_dir env) (ai_filename x)) (ai_size_bytes x)"
      "\<forall>a\<in>set arts. artifact_selected (ai_kind a) (env_selected_kinds env)
            \<and> artifact_exists (env_files env)
                 (path_join (env_delivered_dir env) (ai_filename a)) (ai_size_bytes a) \<longrightarrow>
            (\<exists>e. entry_of (sc_manifest st') (ai_filename a) = Some e
                 \<and> dget e ''status'' = PyStr ''present'')"
    by blast
  have "art \<notin> set (sc_to_fetch st')" using s(2) assms(6) ex by blast
  moreover have "\<exists>e. entry_of (sc_manifest st') (ai_filename art) = Some e
                   \<and> dget e ''status'' = PyStr ''present''"
    using s(3) assms(2,3) ex by blast
  ultimately show ?thesis using one s(1) by blast
qed


theorem sizeless_artifact_present_witness:
  "\<exists>st'. scan_artifacts ex_env [ex_aux, ex_readme] ex_scan_state = Inr st'
      \<and> ex_readme \<notin> set (sc_to_fetch st')
      \<and> (\<exists>e. entry_of (sc_manifest st') ''README.txt'' = Some e
             \<and> dget e ''status'' = PyStr ''present'')"
proof -
  have 1: "entries_ok (sc_manifest ex_scan_state)" by code_simp
  have 2: "ex_readme \<in> set [ex_aux, ex_readme]" by simp
  have 3: "artifact_selected (ai_kind ex_readme) (env_selected_kinds ex_env)" by code_simp
  have 4: "ai_size_bytes ex_readme = None" by (simp add: ex_readme_def)
  have 5: "env_files ex_env (path_join (env_delivered_dir ex_env) (ai_filename ex_readme)) = Some 3"
    by code_simp
  have 6: "ex_readme \<notin> set (sc_to_fetch ex_scan_state)" by (simp add: ex_scan_state_def)
  have 7: "ai_filename ex_readme = ''README.txt''" by (simp add: ex_readme_def)
  show ?thesis
    using sizeless_artifact_present [OF 1 2 3 4 5 6, THEN conjunct2] by (simp add: 7)
qed


subsection \<open>Running again with nothing missing\<close>






































subsection \<open>Transfers\<close>

lemma backoffs_step: "a < b \<Longrightarrow> backoffs a b = Backoff (min (2 ^ a) 10) # backoffs (Suc a) b"
  by (simp add: backoffs_def upt_conv_Cons)

lemma backoffs_empty [simp]: "backoffs a a = []"
  by (simp add: backoffs_def)

text \<open>The loop from attempt \<open>a\<close>, the attempts before it having failed.\<close>

lemma attempts_from_fail:
  assumes "1 \<le> a" and "a + left = Suc n"
    and "\<forall>k. a \<le> k \<and> k \<le> n \<longrightarrow> isl (attempt_result server name expected d0 k)"
  shows "left \<noteq> 0 \<longrightarrow> attempts_from server name expected limited n left a
           (part_after server name expected d0 (a - 1)) ps
         = \<lparr>tr_status = ''error'',
            tr_error = Some (projl (attempt_result server name expected d0 n)),
            tr_size_bytes = None, tr_attempts = n, tr_pauses = ps @ backoffs a n\<rparr>"
  using assms
proof (induction left arbitrary: a ps)
  case 0
  then show ?case by simp
next
  case (Suc left)
  let ?d = "part_after server name expected d0 (a - 1)"
  obtain part res where ao: "attempt_once name expected ?d (server a) = (part, res)"
    by (cases "attempt_once name expected ?d (server a)")
  have an: "a \<le> n" using Suc.prems(2) by simp
  have res: "attempt_result server name expected d0 a = res"
    using ao by (simp add: attempt_result_def)
  then obtain msg where msg: "res = Inl msg"
    using Suc.prems(3) an by (cases res) (auto dest!: spec [of _ a])
  have pa: "part_after server name expected d0 a = part"
    using ao Suc.prems(1) by (cases a) simp_all
  show ?case
  proof (cases "a = n")
    case True
    then show ?thesis using ao msg res by simp
  next
    case False
    then have lt: "a < n" using an by simp
    then have l0: "left \<noteq> 0" using Suc.prems(2) by simp
    have ih: "attempts_from server name expected limited n left (Suc a)
           (part_after server name expected d0 (Suc a - 1))
           (ps @ [Backoff (min (2 ^ a) 10)])
         = \<lparr>tr_status = ''error'',
            tr_error = Some (projl (attempt_result server name expected d0 n)),
            tr_size_bytes = None, tr_attempts = n,
            tr_pauses = (ps @ [Backoff (min (2 ^ a) 10)]) @ backoffs (Suc a) n\<rparr>"
      using Suc.IH [of "Suc a" "ps @ [Backoff (min (2 ^ a) 10)]"] Suc.prems l0 by simp
    show ?thesis using ao msg False ih pa backoffs_step [OF lt] by simp
  qed
qed

lemma attempts_from_success:
  assumes "1 \<le> a" and "a + left = Suc n" and "a \<le> k" and "k \<le> n"
    and "\<forall>j. a \<le> j \<and> j < k \<longrightarrow> isl (attempt_result server name expected d0 j)"
    and "attempt_result server name expected d0 k = Inr final_size"
  shows "attempts_from server name expected limited n left a
           (part_after server name expected d0 (a - 1)) ps
         = \<lparr>tr_status = ''ok'', tr_error = None, tr_size_bytes = Some final_size,
            tr_attempts = k,
            tr_pauses = ps @ backoffs a k @ (if limited then [RateLimit] else [])\<rparr>"
  using assms
proof (induction left arbitrary: a ps)
  case 0
  then show ?case by simp
next
  case (Suc left)
  let ?d = "part_after server name expected d0 (a - 1)"
  obtain part res where ao: "attempt_once name expected ?d (server a) = (part, res)"
    by (cases "attempt_once name expected ?d (server a)")
  have res: "attempt_result server name expected d0 a = res"
    using ao by (simp add: attempt_result_def)
  have pa: "part_after server name expected d0 a = part"
    using ao Suc.prems(1) by (cases a) simp_all
  show ?case
  proof (cases "a = k")
    case True
    then have "res = Inr final_size" using res Suc.prems(6) by simp
    then show ?thesis using ao True by simp
  next
    case False
    then have lt: "a < k" using Suc.prems(3) by simp
    then obtain msg where msg: "res = Inl msg"
      using Suc.prems(5) res by (cases res) (auto dest!: spec [of _ a])
    have an: "a \<noteq> n" using lt Suc.prems(4) by simp
    have ih: "attempts_from server name expected limited n left (Suc a)
           (part_after server name expected d0 (Suc a - 1))
           (ps @ [Backoff (min (2 ^ a) 10)])
         = \<lparr>tr_status = ''ok'', tr_error = None, tr_size_bytes = Some final_size,
            tr_attempts = k,
            tr_pauses = (ps @ [Backoff (min (2 ^ a) 10)]) @ backoffs (Suc a) k
                          @ (if limited then [RateLimit] else [])\<rparr>"
      using Suc.IH [of "Suc a" "ps @ [Backoff (min (2 ^ a) 10)]"] Suc.prems lt by simp
    show ?thesis using ao msg an ih pa backoffs_step [OF lt] by simp
  qed
qed


lemma dict_update_lookup: "map_of (dict_update p d) = map_of d ++ map_of (rev p)"
proof (induction p arbitrary: d)
  case Nil
  then show ?case by (simp add: dict_update_def)
next
  case (Cons kv p)
  have "dict_update (kv # p) d = dict_update p (dict_set (fst kv) (snd kv) d)"
    by (simp add: dict_update_def)
  then have "map_of (dict_update (kv # p) d)
               = map_of (dict_set (fst kv) (snd kv) d) ++ map_of (rev p)"
    using Cons.IH by simp
  also have "\<dots> = map_of d ++ map_of (rev (kv # p))"
    by (cases kv) (auto simp: dict_set_def update_conv' map_add_def fun_eq_iff
                        split: option.splits)
  finally show ?case .
qed

lemma payload_fields:
  "map_of (rev (result_payload env art lp tr digest t)) ''filename'' = Some (PyStr (ai_filename art))"
  "map_of (rev (result_payload env art lp tr digest t)) ''status''
     = Some (PyStr (if tr_status tr = ''ok'' then ''present'' else ''error''))"
  "map_of (rev (result_payload env art lp tr digest t)) ''error'' = Some (opt_str (tr_error tr))"
  by (simp_all add: result_payload_def Let_def)

lemma payload_dget:
  "dget (result_payload env art lp tr digest t) ''filename'' = PyStr (ai_filename art)"
  "dget (result_payload env art lp tr digest t) ''status''
     = PyStr (if tr_status tr = ''ok'' then ''present'' else ''error'')"
  "dget (result_payload env art lp tr digest t) ''error'' = opt_str (tr_error tr)"
  by (simp_all add: result_payload_def Let_def dget_def)

lemma updated_dget:
  "dget (dict_update (result_payload env art lp tr digest t) d) ''filename''
     = PyStr (ai_filename art)"
  "dget (dict_update (result_payload env art lp tr digest t) d) ''status''
     = PyStr (if tr_status tr = ''ok'' then ''present'' else ''error'')"
  "dget (dict_update (result_payload env art lp tr digest t) d) ''error''
     = opt_str (tr_error tr)"
  by (simp_all add: dget_def dict_update_lookup map_add_def payload_fields)

text \<open>The body of the loop over the completed transfers, on a manifest whose entries are
  dictionaries: it returns, the artifact's entry tells its own outcome, and the entry of
  every other file name is as before.\<close>

lemma record_result_cases:
  assumes ok: "entries_ok m"
  shows "\<exists>m' t'. record_result env compute_sha256 sha256 result (m, t) art = Inr (m', t')
     \<and> entries_ok m'
     \<and> (\<forall>k. k \<noteq> ''artifacts'' \<longrightarrow> map_of m' k = map_of m k)
     \<and> (\<exists>e. entry_of m' (ai_filename art) = Some e
            \<and> dget e ''status''
                = PyStr (if tr_status (result art) = ''ok'' then ''present'' else ''error'')
            \<and> dget e ''error'' = opt_str (tr_error (result art)))
     \<and> (\<forall>f. f \<noteq> ai_filename art \<longrightarrow> entry_of m' f = entry_of m f)"
proof -
  let ?g = "ai_filename art"
  let ?lp = "path_join (env_delivered_dir env) (ai_filename art)"
  let ?tr = "result art"
  let ?digest = "if tr_status ?tr = ''ok'' \<and> compute_sha256 then Some (sha256 art) else None"
  let ?payload = "result_payload env art ?lp ?tr ?digest t"
  let ?t' = "if tr_status ?tr = ''ok'' then t + 2 else Suc t"
  from entries_ok_lookup [OF ok] obtain xs where
    xs: "map_of m ''artifacts'' = Some (PyList xs)" "list_all is_dict xs"
    "\<forall>f. entry_lookup m f = find_entry xs f"
    by blast
  obtain r where r: "find_entry xs ?g = Inr r" using find_entry_dicts [OF xs(2)] by blast
  show ?thesis
  proof (cases r)
    case None
    obtain m' where m': "append_artifact ?payload m = Inr m'" "entries_ok m'"
      "map_of m' ''artifacts'' = Some (PyList (xs @ [PyDict ?payload]))"
      "\<forall>k. k \<noteq> ''artifacts'' \<longrightarrow> map_of m' k = map_of m k"
      using entries_ok_append [OF ok, of ?payload] xs(1) by blast
    have step: "record_result env compute_sha256 sha256 result (m, t) art = Inr (m', ?t')"
      using xs(3) r None m'(1) by (simp add: record_result_def Let_def)
    have new: "find_entry (xs @ [PyDict ?payload]) ?g = Inr (Some (length xs, ?payload))"
      using r None by (simp add: find_entry_append payload_dget)
    have here: "\<exists>e. entry_of m' ?g = Some e
            \<and> dget e ''status''
                = PyStr (if tr_status ?tr = ''ok'' then ''present'' else ''error'')
            \<and> dget e ''error'' = opt_str (tr_error ?tr)"
      using new by (simp add: entry_of_find [OF m'(3)] payload_dget)
    have frame: "\<forall>f. f \<noteq> ?g \<longrightarrow> entry_of m' f = entry_of m f"
    proof (intro allI impI)
      fix f assume ne: "f \<noteq> ?g"
      obtain rf where rf: "find_entry xs f = Inr rf" using find_entry_dicts [OF xs(2)] by blast
      show "entry_of m' f = entry_of m f"
        using rf ne
        by (cases rf) (auto simp: entry_of_find [OF m'(3)] entry_of_find [OF xs(1)]
                                find_entry_append payload_dget)
    qed
    show ?thesis using step m'(2) m'(4) here frame by blast
  next
    case (Some p)
    obtain i d where p: "p = (i, d)" by (cases p)
    note fe = r [unfolded Some p]
    let ?d' = "dict_update ?payload d"
    let ?m' = "set_entry i ?d' m"
    have step: "record_result env compute_sha256 sha256 result (m, t) art = Inr (?m', ?t')"
      using xs(3) r Some p by (simp add: record_result_def Let_def)
    have fn: "dget ?d' ''filename'' = PyStr ?g" by (rule updated_dget(1))
    have arts': "map_of ?m' ''artifacts'' = Some (PyList (xs[i := PyDict ?d']))"
      by (rule set_entry_artifacts(1) [OF xs(1)])
    have others: "\<forall>k. k \<noteq> ''artifacts'' \<longrightarrow> map_of ?m' k = map_of m k"
      using set_entry_artifacts(2) [OF xs(1)] by simp
    have same: "find_entry (xs[i := PyDict ?d']) ?g = Inr (Some (i, ?d'))"
      by (rule find_entry_update_same [OF fe fn])
    have here: "\<exists>e. entry_of ?m' ?g = Some e
            \<and> dget e ''status''
                = PyStr (if tr_status ?tr = ''ok'' then ''present'' else ''error'')
            \<and> dget e ''error'' = opt_str (tr_error ?tr)"
      using same by (simp add: entry_of_find [OF arts'] updated_dget)
    have frame: "\<forall>f. f \<noteq> ?g \<longrightarrow> entry_of ?m' f = entry_of m f"
    proof (intro allI impI)
      fix f assume ne: "f \<noteq> ?g"
      have "find_entry (xs[i := PyDict ?d']) f = find_entry xs f"
        by (rule find_entry_update_other [OF xs(2) fe fn ne])
      then show "entry_of ?m' f = entry_of m f"
        by (simp add: entry_of_find [OF arts'] entry_of_find [OF xs(1)])
    qed
    show ?thesis using step entries_ok_set_entry [OF ok] others here frame by blast
  qed
qed

lemma record_results_cases:
  assumes "entries_ok m" and "distinct (map ai_filename arts)"
  shows "\<exists>m' t'. record_results env compute_sha256 sha256 result arts (m, t) = Inr (m', t')
     \<and> entries_ok m'
     \<and> (\<forall>k. k \<noteq> ''artifacts'' \<longrightarrow> map_of m' k = map_of m k)
     \<and> (\<forall>art\<in>set arts. \<exists>e. entry_of m' (ai_filename art) = Some e
            \<and> dget e ''status''
                = PyStr (if tr_status (result art) = ''ok'' then ''present'' else ''error'')
            \<and> dget e ''error'' = opt_str (tr_error (result art)))
     \<and> (\<forall>f. f \<notin> ai_filename ` set arts \<longrightarrow> entry_of m' f = entry_of m f)"
  using assms
proof (induction arts arbitrary: m t)
  case Nil
  then show ?case by simp
next
  case (Cons art arts)
  from record_result_cases [OF Cons.prems(1), of env compute_sha256 sha256 result t art]
  obtain m1 t1 where
    s1: "record_result env compute_sha256 sha256 result (m, t) art = Inr (m1, t1)"
      "entries_ok m1" "\<forall>k. k \<noteq> ''artifacts'' \<longrightarrow> map_of m1 k = map_of m k"
      "\<exists>e. entry_of m1 (ai_filename art) = Some e
            \<and> dget e ''status''
                = PyStr (if tr_status (result art) = ''ok'' then ''present'' else ''error'')
            \<and> dget e ''error'' = opt_str (tr_error (result art))"
      "\<forall>f. f \<noteq> ai_filename art \<longrightarrow> entry_of m1 f = entry_of m f"
    by blast
  have d: "distinct (map ai_filename arts)" "ai_filename art \<notin> ai_filename ` set arts"
    using Cons.prems(2) by auto
  from Cons.IH [OF s1(2) d(1), of t1] obtain m' t' where
    s2: "record_results env compute_sha256 sha256 result arts (m1, t1) = Inr (m', t')"
      "entries_ok m'" "\<forall>k. k \<noteq> ''artifacts'' \<longrightarrow> map_of m' k = map_of m1 k"
      "\<forall>art\<in>set arts. \<exists>e. entry_of m' (ai_filename art) = Some e
            \<and> dget e ''status''
                = PyStr (if tr_status (result art) = ''ok'' then ''present'' else ''error'')
            \<and> dget e ''error'' = opt_str (tr_error (result art))"
      "\<forall>f. f \<notin> ai_filename ` set arts \<longrightarrow> entry_of m' f = entry_of m1 f"
    by blast
  have run: "record_results env compute_sha256 sha256 result (art # arts) (m, t) = Inr (m', t')"
    using s1(1) s2(1) by simp
  have keys: "\<forall>k. k \<noteq> ''artifacts'' \<longrightarrow> map_of m' k = map_of m k"
    using s1(3) s2(3) by simp
  have head: "\<exists>e. entry_of m' (ai_filename art) = Some e
            \<and> dget e ''status''
                = PyStr (if tr_status (result art) = ''ok'' then ''present'' else ''error'')
            \<and> dget e ''error'' = opt_str (tr_error (result art))"
    using s1(4) s2(5) d(2) by simp
  have frame: "\<forall>f. f \<notin> ai_filename ` set (art # arts) \<longrightarrow> entry_of m' f = entry_of m f"
    using s1(5) s2(5) by simp
  show ?case using run s2(2) keys head s2(4) frame by auto
qed


end
